theory Spec2Isabelle
  imports Complex_Main "HOL-Library.Multiset"
begin

section \<open>Strings\<close>

text \<open>
  A JavaScript string is a sequence of UTF-16 code units. The model covers the strings
  whose code units lie in U+0000..U+00FF, one \<^typ>\<open>char\<close> per code unit, so
  \<^const>\<open>length\<close> is the \<^verbatim>\<open>.length\<close> of the string. On this range the three
  character classes below are exactly those of the JavaScript regular expressions
  \<^verbatim>\<open>\s\<close>, \<^verbatim>\<open>\w\<close> and \<^verbatim>\<open>\d\<close> (without the unicode flag).
\<close>

definition code :: "char \<Rightarrow> nat" where
  "code c = of_char c"

text \<open>\<^verbatim>\<open>\s\<close>: TAB, LF, VT, FF, CR, SPACE and NO-BREAK SPACE.\<close>

definition is_space :: "char \<Rightarrow> bool" where
  "is_space c = ((9 \<le> code c \<and> code c \<le> 13) \<or> code c = 32 \<or> code c = 160)"

definition is_digit :: "char \<Rightarrow> bool" where
  "is_digit c = (48 \<le> code c \<and> code c \<le> 57)"

text \<open>\<^verbatim>\<open>\w\<close>: \<^verbatim>\<open>[A-Za-z0-9_]\<close>.\<close>

definition is_word :: "char \<Rightarrow> bool" where
  "is_word c = ((65 \<le> code c \<and> code c \<le> 90) \<or> (97 \<le> code c \<and> code c \<le> 122)
     \<or> is_digit c \<or> code c = 95)"

text \<open>
  \<^verbatim>\<open>String.prototype.toLowerCase\<close>: in U+0000..U+00FF the letters with a lower-case
  form are A..Z and U+00C0..U+00DE without the multiplication sign U+00D7; each maps to
  the code unit 32 above it.
\<close>

definition toLowerCase_char :: "char \<Rightarrow> char" where
  "toLowerCase_char c =
     (if (65 \<le> code c \<and> code c \<le> 90) \<or> (192 \<le> code c \<and> code c \<le> 222 \<and> code c \<noteq> 215)
      then char_of (code c + 32) else c)"

definition toLowerCase :: "string \<Rightarrow> string" where
  "toLowerCase s = map toLowerCase_char s"

text \<open>
  \<^verbatim>\<open>s.replace(/[...]+/g, r)\<close> for a character class: scanning from the left, every
  maximal run of characters of the class \<open>p\<close> is replaced by \<open>r\<close>, every other
  character is copied.
\<close>

function replace_runs :: "(char \<Rightarrow> bool) \<Rightarrow> string \<Rightarrow> string \<Rightarrow> string" where
  "replace_runs p r [] = []"
| "replace_runs p r (c # s) =
     (if p c then r @ replace_runs p r (dropWhile p s) else c # replace_runs p r s)"
  by pat_completeness auto
termination
  by (relation "measure (\<lambda>(p, r, s). length s)")
     (auto simp: length_dropWhile_le less_Suc_eq_le)

text \<open>
  The slug expression, written out four times in the source (\<^verbatim>\<open>createCategory\<close>,
  \<^verbatim>\<open>updateCategory\<close>, \<^verbatim>\<open>createQuestion\<close>, \<^verbatim>\<open>updateQuestion\<close>):
  \<^verbatim>\<open>t.toLowerCase().replace(/\s+/g, '-').replace(/[^\w-]+/g, '')\<close>.
\<close>

definition slugify :: "string \<Rightarrow> string" where
  "slugify t =
     replace_runs (\<lambda>c. \<not> (is_word c \<or> c = CHR ''-'')) ''''
       (replace_runs is_space ''-'' (toLowerCase t))"

text \<open>
  The words of the specification for the same function: lower-case the text, replace each
  run of whitespace by a single hyphen, strip every character that is neither a word
  character nor a hyphen. \<open>runs p s\<close> cuts \<open>s\<close> into its maximal blocks of
  characters that agree on \<open>p\<close>.
\<close>

function runs :: "('a \<Rightarrow> bool) \<Rightarrow> 'a list \<Rightarrow> 'a list list" where
  "runs p [] = []"
| "runs p (c # s) =
     (c # takeWhile (\<lambda>d. p d = p c) s) # runs p (dropWhile (\<lambda>d. p d = p c) s)"
  by pat_completeness auto
termination
  by (relation "measure (\<lambda>(p, s). length s)")
     (auto simp: length_dropWhile_le less_Suc_eq_le)

definition slugify_spec :: "string \<Rightarrow> string" where
  "slugify_spec t =
     filter (\<lambda>c. is_word c \<or> c = CHR ''-'')
       (concat (map (\<lambda>b. if is_space (hd b) then ''-'' else b)
          (runs is_space (map toLowerCase_char t))))"

text \<open>
  A \<^verbatim>\<open>Number\<close> as \<^verbatim>\<open>parseInt\<close> returns it: \<^verbatim>\<open>NaN\<close>, an integer of magnitude
  up to 2^53 = 9007199254740992, which a \<^verbatim>\<open>Number\<close> holds exactly, or a
  \<^verbatim>\<open>Number\<close> of greater magnitude (\<^verbatim>\<open>Infinity\<close> included), whose rounded value
  the model does not give.
\<close>

datatype js_number = NaN | Integer int | Beyond

text \<open>
  \<^verbatim>\<open>parseInt(s, 10)\<close>: leading whitespace is skipped, one sign is read, then the
  longest prefix of decimal digits; with no digit the result is \<^verbatim>\<open>NaN\<close>.
\<close>

definition digits_value :: "string \<Rightarrow> int" where
  "digits_value ds = foldl (\<lambda>n c. 10 * n + (int (code c) - 48)) 0 ds"

definition after_sign :: "string \<Rightarrow> string" where
  "after_sign t =
     (case t of [] \<Rightarrow> [] | c # r \<Rightarrow> if c = CHR ''-'' \<or> c = CHR ''+'' then r else c # r)"

definition has_minus :: "string \<Rightarrow> bool" where
  "has_minus t = (case t of [] \<Rightarrow> False | c # r \<Rightarrow> c = CHR ''-'')"

definition parseInt10 :: "string \<Rightarrow> js_number" where
  "parseInt10 s =
     (let t = dropWhile is_space s;
          ds = takeWhile is_digit (after_sign t);
          v = digits_value ds
      in if ds = [] then NaN
         else if 9007199254740992 < v then Beyond
         else Integer (if has_minus t then - v else v))"

text \<open>A numeric string: one or more decimal digits and nothing else.\<close>

definition numeric :: "string \<Rightarrow> bool" where
  "numeric s = (s \<noteq> [] \<and> list_all is_digit s)"

text \<open>
  The truth value of \<^verbatim>\<open>if (x)\<close> for \<^verbatim>\<open>x: string | undefined\<close>, and
  \<^verbatim>\<open>x ?? y\<close>.
\<close>

definition truthy :: "string option \<Rightarrow> bool" where
  "truthy x = (case x of None \<Rightarrow> False | Some s \<Rightarrow> s \<noteq> [])"

definition coalesce :: "'a option \<Rightarrow> 'a \<Rightarrow> 'a" where
  "coalesce x y = (case x of None \<Rightarrow> y | Some v \<Rightarrow> v)"

text \<open>
  \<^verbatim>\<open>xss\<close> is a library function and a parameter \<open>xss\<close> of the operations below.
  For concrete runs, \<open>escapeHtml\<close> is the library's default escaping of angle brackets,
  which is what it applies to a tag outside its white list.
\<close>

definition escapeHtml :: "string \<Rightarrow> string" where
  "escapeHtml s =
     concat (map (\<lambda>c. if c = CHR ''<'' then ''&lt;'' else if c = CHR ''>'' then ''&gt;'' else [c]) s)"

section \<open>Validation\<close>

text \<open>
  The input of a validator is \<^verbatim>\<open>unknown\<close>: a parsed JSON value. An object is the list
  of its properties, read with \<^const>\<open>map_of\<close> (the names of a parsed object are
  distinct); numbers are the rationals.
\<close>

datatype json =
    JNull
  | JBool bool
  | JNumber rat
  | JString string
  | JArray "json list"
  | JObject "(string \<times> json) list"

datatype issue_code = invalid_type | too_small | too_big

text \<open>An issue: the path of the field, the code, and the message where the schema gives one.\<close>

datatype issue = Issue "string list" issue_code "string option"


record CategoryToUpdate =
  cu_title :: "string option"

record QuestionToCreate =
  qc_question :: string
  qc_answer :: string
  qc_categoryId :: rat

record QuestionToUpdate =
  qu_question :: "string option"
  qu_answer :: "string option"
  qu_categoryId :: "rat option"

text \<open>\<^verbatim>\<open>z.string().min(lo, lo_msg).max(hi, hi_msg)\<close> on the value of a property.\<close>

definition z_string ::
  "nat \<Rightarrow> string option \<Rightarrow> nat \<Rightarrow> string option \<Rightarrow> string list \<Rightarrow> json option
    \<Rightarrow> issue list + string" where
  "z_string lo lo_msg hi hi_msg path v =
     (case v of
        Some (JString s) \<Rightarrow>
          if length s < lo then Inl [Issue path too_small lo_msg]
          else if hi < length s then Inl [Issue path too_big hi_msg]
          else Inr s
      | _ \<Rightarrow> Inl [Issue path invalid_type None])"

text \<open>\<^verbatim>\<open>z.number()\<close>: any number, integral or not.\<close>

definition z_number :: "string list \<Rightarrow> json option \<Rightarrow> issue list + rat" where
  "z_number path v =
     (case v of Some (JNumber n) \<Rightarrow> Inr n | _ \<Rightarrow> Inl [Issue path invalid_type None])"

text \<open>\<^verbatim>\<open>.optional()\<close>: an absent property is accepted as absent.\<close>

definition z_optional :: "(json option \<Rightarrow> issue list + 'a) \<Rightarrow> json option \<Rightarrow> issue list + 'a option" where
  "z_optional p v =
     (case v of None \<Rightarrow> Inr None
      | Some _ \<Rightarrow> (case p v of Inl e \<Rightarrow> Inl e | Inr x \<Rightarrow> Inr (Some x)))"

definition issues :: "issue list + 'a \<Rightarrow> issue list" where
  "issues r = (case r of Inl e \<Rightarrow> e | Inr _ \<Rightarrow> [])"


definition validateCategoryForUpdate :: "json \<Rightarrow> issue list + CategoryToUpdate" where
  "validateCategoryForUpdate data =
     (case data of
        JObject fs \<Rightarrow>
          (case z_string 3 None 1024 None [''title''] (map_of fs ''title'') of
             Inl e \<Rightarrow> Inl e
           | Inr t \<Rightarrow> Inr \<lparr>cu_title = Some t\<rparr>)
      | _ \<Rightarrow> Inl [Issue [] invalid_type None])"

definition validateQuestionForCreate :: "json \<Rightarrow> issue list + QuestionToCreate" where
  "validateQuestionForCreate data =
     (case data of
        JObject fs \<Rightarrow>
          (let q = z_string 3 None 1024 None [''question''] (map_of fs ''question'');
               a = z_string 3 None 1024 None [''answer''] (map_of fs ''answer'');
               c = z_number [''categoryId''] (map_of fs ''categoryId'')
           in case (q, a, c) of
                (Inr q', Inr a', Inr c') \<Rightarrow>
                  Inr \<lparr>qc_question = q', qc_answer = a', qc_categoryId = c'\<rparr>
              | _ \<Rightarrow> Inl (issues q @ issues a @ issues c))
      | _ \<Rightarrow> Inl [Issue [] invalid_type None])"

definition validateQuestionForUpdate :: "json \<Rightarrow> issue list + QuestionToUpdate" where
  "validateQuestionForUpdate data =
     (case data of
        JObject fs \<Rightarrow>
          (let q = z_optional (z_string 3 None 1024 None [''question'']) (map_of fs ''question'');
               a = z_optional (z_string 3 None 1024 None [''answer'']) (map_of fs ''answer'');
               c = z_optional (z_number [''categoryId'']) (map_of fs ''categoryId'')
           in case (q, a, c) of
                (Inr q', Inr a', Inr c') \<Rightarrow>
                  Inr \<lparr>qu_question = q', qu_answer = a', qu_categoryId = c'\<rparr>
              | _ \<Rightarrow> Inl (issues q @ issues a @ issues c))
      | _ \<Rightarrow> Inl [Issue [] invalid_type None])"

section \<open>The store\<close>

text \<open>
  The two tables of \<^verbatim>\<open>schema.prisma\<close>, each with the next value of its
  \<^verbatim>\<open>autoincrement()\<close> sequence. A failed statement leaves the database as it was
  (the value that a failed insert takes from the sequence is not modelled). The ids in
  the tables and the ids given to the service functions are integers; the 32-bit range of
  the \<^verbatim>\<open>Int\<close> column is checked where a route hands a \<^verbatim>\<open>Number\<close> to a service
  function.
\<close>

record Category =
  cat_id :: int
  cat_title :: string
  cat_slug :: string

record Question =
  q_id :: int
  q_question :: string
  q_answer :: string
  q_slug :: string
  q_categoryId :: int

record database =
  Categories :: "Category list"
  Questions :: "Question list"
  Categories_id_seq :: int
  Questions_id_seq :: int

text \<open>
  What a statement can throw: a unique index (\<^verbatim>\<open>@unique\<close> on
  \<^verbatim>\<open>Categories.title\<close>, \<^verbatim>\<open>Categories.slug\<close>, \<^verbatim>\<open>Questions.slug\<close>), the foreign
  key \<^verbatim>\<open>Questions.categoryId\<close> (\<^verbatim>\<open>ON DELETE RESTRICT\<close>), a missing row for
  \<^verbatim>\<open>update\<close> and \<^verbatim>\<open>delete\<close>, and a number that is no \<^verbatim>\<open>Int\<close>.
\<close>

datatype prisma_error =
    UniqueConstraintViolation
  | ForeignKeyConstraintViolation
  | RecordNotFound
  | ValidationError

definition is_integer :: "rat \<Rightarrow> bool" where
  "is_integer r = (of_int \<lfloor>r\<rfloor> = r)"

text \<open>
  A \<^verbatim>\<open>Number\<close> given as the id of a lookup must be a value of the \<^verbatim>\<open>Int\<close> column,
  32 bits wide (from -2147483648 up to 2147483647); the store throws otherwise.
\<close>

definition Int_column :: "js_number \<Rightarrow> prisma_error + int" where
  "Int_column n =
     (case n of
        Integer i \<Rightarrow>
          if - 2147483648 \<le> i \<and> i < 2147483648 then Inr i else Inl ValidationError
      | _ \<Rightarrow> Inl ValidationError)"

definition categories_findUnique :: "database \<Rightarrow> string \<Rightarrow> Category option" where
  "categories_findUnique db slug = find (\<lambda>c. cat_slug c = slug) (Categories db)"

definition categories_findMany :: "database \<Rightarrow> nat \<Rightarrow> nat \<Rightarrow> Category list" where
  "categories_findMany db skip tk = take tk (drop skip (sort_key cat_id (Categories db)))"


definition categories_update ::
  "database \<Rightarrow> string \<Rightarrow> string \<Rightarrow> string \<Rightarrow> prisma_error + Category \<times> database" where
  "categories_update db slug title new_slug =
     (case categories_findUnique db slug of
        None \<Rightarrow> Inl RecordNotFound
      | Some row \<Rightarrow>
          if list_ex (\<lambda>c. cat_slug c \<noteq> slug \<and> (cat_title c = title \<or> cat_slug c = new_slug))
               (Categories db)
          then Inl UniqueConstraintViolation
          else let updated = row\<lparr>cat_title := title, cat_slug := new_slug\<rparr>
               in Inr (updated,
                    db\<lparr>Categories :=
                         map (\<lambda>c. if cat_slug c = slug
                                   then c\<lparr>cat_title := title, cat_slug := new_slug\<rparr> else c)
                           (Categories db)\<rparr>))"


definition questions_findUnique :: "database \<Rightarrow> int \<Rightarrow> Question option" where
  "questions_findUnique db i = find (\<lambda>q. q_id q = i) (Questions db)"

definition questions_findMany :: "database \<Rightarrow> (Question \<Rightarrow> bool) \<Rightarrow> Question list" where
  "questions_findMany db wh = sort_key q_id (filter wh (Questions db))"

definition questions_create ::
  "database \<Rightarrow> string \<Rightarrow> string \<Rightarrow> rat \<Rightarrow> string \<Rightarrow> prisma_error + Question \<times> database" where
  "questions_create db question answer categoryId slug =
     (if \<not> is_integer categoryId then Inl ValidationError
      else if list_ex (\<lambda>q. q_slug q = slug) (Questions db) then Inl UniqueConstraintViolation
      else if \<not> list_ex (\<lambda>c. cat_id c = \<lfloor>categoryId\<rfloor>) (Categories db)
      then Inl ForeignKeyConstraintViolation
      else let created = \<lparr>q_id = Questions_id_seq db, q_question = question, q_answer = answer,
                           q_slug = slug, q_categoryId = \<lfloor>categoryId\<rfloor>\<rparr>
           in Inr (created,
                db\<lparr>Questions := Questions db @ [created],
                   Questions_id_seq := Questions_id_seq db + 1\<rparr>))"

definition questions_update ::
  "database \<Rightarrow> int \<Rightarrow> string \<Rightarrow> string \<Rightarrow> rat \<Rightarrow> string \<Rightarrow> prisma_error + Question \<times> database" where
  "questions_update db i question answer categoryId slug =
     (if \<not> is_integer categoryId then Inl ValidationError
      else case questions_findUnique db i of
        None \<Rightarrow> Inl RecordNotFound
      | Some row \<Rightarrow>
          if list_ex (\<lambda>q. q_id q \<noteq> i \<and> q_slug q = slug) (Questions db)
          then Inl UniqueConstraintViolation
          else if \<not> list_ex (\<lambda>c. cat_id c = \<lfloor>categoryId\<rfloor>) (Categories db)
          then Inl ForeignKeyConstraintViolation
          else let updated = row\<lparr>q_question := question, q_answer := answer, q_slug := slug,
                                 q_categoryId := \<lfloor>categoryId\<rfloor>\<rparr>
               in Inr (updated,
                    db\<lparr>Questions :=
                         map (\<lambda>q. if q_id q = i
                                   then q\<lparr>q_question := question, q_answer := answer,
                                          q_slug := slug, q_categoryId := \<lfloor>categoryId\<rfloor>\<rparr>
                                   else q)
                           (Questions db)\<rparr>))"

definition questions_delete :: "database \<Rightarrow> int \<Rightarrow> prisma_error + Question \<times> database" where
  "questions_delete db i =
     (case questions_findUnique db i of
        None \<Rightarrow> Inl RecordNotFound
      | Some row \<Rightarrow> Inr (row, db\<lparr>Questions := filter (\<lambda>q. q_id q \<noteq> i) (Questions db)\<rparr>))"

section \<open>Category service\<close>

text \<open>
  An operation that writes returns the error thrown by the store, or its result with the
  database after it; \<^verbatim>\<open>null\<close> is \<open>None\<close>.
\<close>

definition getCategories :: "database \<Rightarrow> nat \<Rightarrow> nat \<Rightarrow> Category list" where
  "getCategories db limit offset = categories_findMany db offset limit"

definition getCategoryBySlug :: "database \<Rightarrow> string \<Rightarrow> Category option" where
  "getCategoryBySlug db slug = categories_findUnique db slug"


definition updateCategory ::
  "database \<Rightarrow> string \<Rightarrow> CategoryToUpdate \<Rightarrow> prisma_error + Category option \<times> database" where
  "updateCategory db slug changes =
     (case categories_findUnique db slug of
        None \<Rightarrow> Inr (None, db)
      | Some existing \<Rightarrow>
          (let newSlug = (case cu_title changes of
                            None \<Rightarrow> cat_slug existing
                          | Some title \<Rightarrow> if truthy (Some title) then slugify title
                                          else cat_slug existing)
           in case categories_update db slug
                     (coalesce (cu_title changes) (cat_title existing)) newSlug of
                Inl e \<Rightarrow> Inl e
              | Inr (updated, db') \<Rightarrow> Inr (Some updated, db')))"


section \<open>Question service\<close>

definition getQuestions :: "database \<Rightarrow> Question list" where
  "getQuestions db = questions_findMany db (\<lambda>q. True)"

definition getQuestionById :: "database \<Rightarrow> int \<Rightarrow> Question option" where
  "getQuestionById db i = questions_findUnique db i"

definition createQuestion ::
  "(string \<Rightarrow> string) \<Rightarrow> database \<Rightarrow> QuestionToCreate \<Rightarrow> prisma_error + Question \<times> database" where
  "createQuestion xss db data =
     (let safeQuestion = xss (qc_question data);
          safeAnswer = xss (qc_answer data);
          slug = slugify (qc_question data)
      in questions_create db safeQuestion safeAnswer (qc_categoryId data) slug)"

definition deleteQuestion :: "database \<Rightarrow> int \<Rightarrow> prisma_error + Question option \<times> database" where
  "deleteQuestion db i =
     (case questions_findUnique db i of
        None \<Rightarrow> Inr (None, db)
      | Some existing \<Rightarrow>
          (case questions_delete db i of
             Inl e \<Rightarrow> Inl e
           | Inr (deleted, db') \<Rightarrow> Inr (Some deleted, db')))"

definition updateQuestion ::
  "(string \<Rightarrow> string) \<Rightarrow> database \<Rightarrow> int \<Rightarrow> QuestionToUpdate
    \<Rightarrow> prisma_error + Question option \<times> database" where
  "updateQuestion xss db i changes =
     (case questions_findUnique db i of
        None \<Rightarrow> Inr (None, db)
      | Some existing \<Rightarrow>
          (let safeQuestion = (case qu_question changes of
                                 None \<Rightarrow> q_question existing
                               | Some question \<Rightarrow> if truthy (Some question) then xss question
                                                  else q_question existing);
               safeAnswer = (case qu_answer changes of
                               None \<Rightarrow> q_answer existing
                             | Some answer \<Rightarrow> if truthy (Some answer) then xss answer
                                              else q_answer existing);
               newSlug = (if truthy (qu_question changes) then slugify safeQuestion
                          else q_slug existing)
           in case questions_update db i safeQuestion safeAnswer
                     (coalesce (qu_categoryId changes) (of_int (q_categoryId existing))) newSlug of
                Inl e \<Rightarrow> Inl e
              | Inr (updated, db') \<Rightarrow> Inr (Some updated, db')))"

definition getQuestionByCategorySlug :: "database \<Rightarrow> string \<Rightarrow> Question list option" where
  "getQuestionByCategorySlug db slug =
     (case categories_findUnique db slug of
        None \<Rightarrow> None
      | Some category \<Rightarrow> Some (questions_findMany db (\<lambda>q. q_categoryId q = cat_id category)))"

section \<open>The routes of questions by id\<close>

datatype body =
    ErrorBody string
  | InvalidData string "issue list"
  | QuestionBody Question
  | NoBody

datatype response = Response nat body

fun status :: "response \<Rightarrow> nat" where
  "status (Response n b) = n"

text \<open>
  Each handler takes the path parameter \<^verbatim>\<open>id\<close> as the string it is; the body of a
  \<^verbatim>\<open>PATCH\<close> is the parsed JSON, or \<open>None\<close> when \<^verbatim>\<open>c.req.json()\<close> throws.
  Inside \<^verbatim>\<open>try\<close>, the service function is called with the \<^verbatim>\<open>Number\<close> that
  \<^verbatim>\<open>parseInt\<close> gave; its first statement is the lookup by id, which throws when the
  \<^verbatim>\<open>Number\<close> is no value of the \<^verbatim>\<open>Int\<close> column. Whatever is thrown is caught and
  answered with 500.
\<close>

definition isNaN :: "js_number \<Rightarrow> bool" where
  "isNaN n = (n = NaN)"

definition call_with_id :: "js_number \<Rightarrow> (int \<Rightarrow> prisma_error + 'a) \<Rightarrow> prisma_error + 'a" where
  "call_with_id n f = (case Int_column n of Inl e \<Rightarrow> Inl e | Inr i \<Rightarrow> f i)"

definition get_questions_id :: "database \<Rightarrow> string \<Rightarrow> response" where
  "get_questions_id db param =
     (let n = parseInt10 param
      in if isNaN n then Response 400 (ErrorBody ''Invalid ID'')
         else case call_with_id n (\<lambda>i. Inr (getQuestionById db i)) of
                Inl e \<Rightarrow> Response 500 (ErrorBody ''Internal error'')
              | Inr None \<Rightarrow> Response 404 (ErrorBody ''Question not found'')
              | Inr (Some question) \<Rightarrow> Response 200 (QuestionBody question))"

definition patch_questions_id ::
  "(string \<Rightarrow> string) \<Rightarrow> database \<Rightarrow> string \<Rightarrow> json option \<Rightarrow> response \<times> database" where
  "patch_questions_id xss db param body =
     (let n = parseInt10 param
      in if isNaN n then (Response 400 (ErrorBody ''Invalid ID''), db)
         else case body of
                None \<Rightarrow> (Response 400 (ErrorBody ''Invalid JSON''), db)
              | Some b \<Rightarrow>
                  (case validateQuestionForUpdate b of
                     Inl e \<Rightarrow> (Response 400 (InvalidData ''Invalid data'' e), db)
                   | Inr data \<Rightarrow>
                       (case call_with_id n (\<lambda>i. updateQuestion xss db i data) of
                          Inl e \<Rightarrow> (Response 500 (ErrorBody ''Internal error''), db)
                        | Inr (None, db') \<Rightarrow>
                            (Response 404 (ErrorBody ''Question not found''), db')
                        | Inr (Some updated, db') \<Rightarrow>
                            (Response 200 (QuestionBody updated), db'))))"

definition delete_questions_id :: "database \<Rightarrow> string \<Rightarrow> response \<times> database" where
  "delete_questions_id db param =
     (let n = parseInt10 param
      in if isNaN n then (Response 400 (ErrorBody ''Invalid ID''), db)
         else case call_with_id n (deleteQuestion db) of
                Inl e \<Rightarrow> (Response 500 (ErrorBody ''Internal error''), db)
              | Inr (None, db') \<Rightarrow> (Response 404 (ErrorBody ''Question not found''), db')
              | Inr (Some deleted, db') \<Rightarrow> (Response 204 NoBody, db'))"

section \<open>Fixtures\<close>

text \<open>
  \<^verbatim>\<open>mockCategories\<close> of \<^verbatim>\<open>categories.db.ts\<close> and \<^verbatim>\<open>mockQuestions\<close> of the
  question tests, as the content of a database.
\<close>

definition mockCategories :: "Category list" where
  "mockCategories =
     [\<lparr>cat_id = 1, cat_title = ''HTML'', cat_slug = ''html''\<rparr>,
      \<lparr>cat_id = 2, cat_title = ''CSS'', cat_slug = ''css''\<rparr>,
      \<lparr>cat_id = 3, cat_title = ''JavaScript'', cat_slug = ''js''\<rparr>]"

definition mockQuestions :: "Question list" where
  "mockQuestions =
     [\<lparr>q_id = 1, q_question = ''Test Question 1'', q_answer = ''Test Answer 1'',
       q_slug = ''test-question-1'', q_categoryId = 1\<rparr>,
      \<lparr>q_id = 2, q_question = ''Test Question 2'', q_answer = ''Test Answer 2'',
       q_slug = ''test-question-2'', q_categoryId = 2\<rparr>]"

definition mockDatabase :: database where
  "mockDatabase =
     \<lparr>Categories = mockCategories, Questions = mockQuestions,
      Categories_id_seq = 4, Questions_id_seq = 3\<rparr>"

section \<open>Slugs: the code against the description\<close>

lemma concat_runs: "concat (runs p s) = s"
  by (induction p s rule: runs.induct) simp_all

lemma block_all: "q c \<Longrightarrow> \<forall>x \<in> set (c # takeWhile q s). q x"
  by (auto dest: set_takeWhileD)

text \<open>Every block of \<open>runs p s\<close> is not empty and agrees on \<open>p\<close>.\<close>

lemma runs_blocks: "b \<in> set (runs p s) \<Longrightarrow> b \<noteq> [] \<and> (\<forall>x \<in> set b. p x = p (hd b))"
proof (induction p s rule: runs.induct)
  case (1 p)
  then show ?case by simp
next
  case (2 p c s)
  let ?q = "\<lambda>d. p d = p c"
  from "2.prems" have "b \<in> set ((c # takeWhile ?q s) # runs p (dropWhile ?q s))"
    by (simp only: runs.simps)
  then consider "b = c # takeWhile ?q s" | "b \<in> set (runs p (dropWhile ?q s))"
    by (simp only: set_simps insert_iff) blast
  then show ?case
  proof cases
    case 1
    have "\<forall>x \<in> set (c # takeWhile ?q s). p x = p c"
      by (rule block_all) (rule refl)
    then have "\<forall>x \<in> set b. p x = p (hd b)"
      unfolding 1 list.sel .
    moreover have "b \<noteq> []" unfolding 1 by (rule list.distinct(2))
    ultimately show ?thesis by (rule conjI[rotated])
  next
    case 2
    then show ?thesis by (rule "2.IH")
  qed
qed

text \<open>The blocks are maximal: neighbours differ on \<open>p\<close>.\<close>

lemma runs_maximal: "successively (\<lambda>a b. p (hd a) \<noteq> p (hd b)) (runs p s)"
proof (induction p s rule: runs.induct)
  case (1 p)
  show ?case by simp
next
  case (2 p c s)
  let ?q = "\<lambda>d. p d = p c"
  let ?P = "\<lambda>a b. p (hd a) \<noteq> p (hd b)"
  show ?case
  proof (cases "dropWhile ?q s")
    case Nil
    then show ?thesis by (simp only: runs.simps successively.simps)
  next
    case (Cons d u)
    let ?rest = "runs p (dropWhile (\<lambda>e. p e = p d) u)"
    let ?b1 = "c # takeWhile ?q s" and ?b2 = "d # takeWhile (\<lambda>e. p e = p d) u"
    have eq: "runs p (c # s) = ?b1 # ?b2 # ?rest"
      by (simp only: runs.simps Cons)
    have "dropWhile ?q s \<noteq> []" unfolding Cons by (rule list.distinct(2))
    then have "\<not> ?q (hd (dropWhile ?q s))" by (rule hd_dropWhile)
    then have "p c \<noteq> p d" unfolding Cons list.sel by (rule not_sym)
    then have first: "?P ?b1 ?b2" unfolding list.sel .
    have tail: "successively ?P (?b2 # ?rest)"
      using 2 unfolding Cons runs.simps .
    show ?thesis unfolding eq successively.simps
      using first tail by (rule conjI)
  qed
qed

lemma replace_runs_filter: "replace_runs p [] s = filter (\<lambda>c. \<not> p c) s"
proof (induction p "[] :: string" s rule: replace_runs.induct)
  case (1 p)
  show ?case by simp
next
  case (2 p c s)
  have "filter (\<lambda>c. \<not> p c) (dropWhile p s) = filter (\<lambda>c. \<not> p c) s"
    by (induction s) simp_all
  with 2 show ?case by simp
qed

lemma replace_runs_skip:
  "replace_runs p r s =
     takeWhile (\<lambda>d. \<not> p d) s @ replace_runs p r (dropWhile (\<lambda>d. \<not> p d) s)"
  by (induction s) simp_all

lemma replace_runs_blocks:
  "replace_runs p r s = concat (map (\<lambda>b. if p (hd b) then r else b) (runs p s))"
proof (induction p s rule: runs.induct)
  case (1 p)
  show ?case by simp
next
  case (2 p c s)
  show ?case
  proof (cases "p c")
    case True
    then have "(\<lambda>d. p d = p c) = p" by auto
    with 2 True show ?thesis by simp
  next
    case False
    then have eq: "(\<lambda>d. p d = p c) = (\<lambda>d. \<not> p d)" by auto
    have "replace_runs p r (c # s) = c # replace_runs p r s"
      using False by simp
    also have "replace_runs p r s =
        takeWhile (\<lambda>d. \<not> p d) s @ replace_runs p r (dropWhile (\<lambda>d. \<not> p d) s)"
      by (rule replace_runs_skip)
    finally show ?thesis using 2 False by (simp add: eq)
  qed
qed

lemma slugify_refines: "slugify t = slugify_spec t"
proof -
  have "slugify t =
      filter (\<lambda>c. \<not> \<not> (is_word c \<or> c = CHR ''-''))
        (replace_runs is_space ''-'' (toLowerCase t))"
    by (simp only: slugify_def replace_runs_filter)
  then show ?thesis
    by (simp add: slugify_spec_def replace_runs_blocks toLowerCase_def)
qed

text \<open>
  C1, as stated: the slug of \<open>''  Multiple   Spaces  ''\<close> is \<open>''multiple-spaces''\<close>.
  It is not: the runs of whitespace at both ends become hyphens too, and nothing trims them.
\<close>

theorem slugify_multiple_spaces_counterexample:
  "slugify ''  Multiple   Spaces  '' \<noteq> ''multiple-spaces''"
  by code_simp

text \<open>
  C1, amended: the slug is a function of the text alone: the text in lower case, each
  maximal run of whitespace replaced by one hyphen, every character that is neither a word
  character nor a hyphen removed. The slug of \<open>''What is HTML?''\<close> is
  \<open>''what-is-html''\<close>, and the slug of \<open>''  Multiple   Spaces  ''\<close> is
  \<open>''-multiple-spaces-''\<close>.
\<close>

theorem slugify_meets_description:
  "slugify t = slugify_spec t
    \<and> slugify ''What is HTML?'' = ''what-is-html''
    \<and> slugify ''  Multiple   Spaces  '' = ''-multiple-spaces-''"
proof -
  have "slugify ''What is HTML?'' = ''what-is-html''" by code_simp
  moreover have "slugify ''  Multiple   Spaces  '' = ''-multiple-spaces-''" by code_simp
  ultimately show ?thesis using slugify_refines by simp
qed

section \<open>Validation: what the schemas accept\<close>

lemma z_string_Inr:
  "z_string lo lm hi hm path v = Inr s \<longleftrightarrow>
     v = Some (JString s) \<and> lo \<le> length s \<and> length s \<le> hi"
  by (auto simp: z_string_def split: option.splits json.splits if_splits)

lemma z_number_Inr: "z_number path v = Inr n \<longleftrightarrow> v = Some (JNumber n)"
  by (auto simp: z_number_def split: option.splits json.splits)

lemma z_optional_Inr:
  "z_optional p v = Inr x \<Longrightarrow> (v = None \<and> x = None) \<or> (\<exists>y. x = Some y \<and> p v = Inr y)"
  by (auto simp: z_optional_def split: option.splits sum.splits)



text \<open>
  C3: \<^verbatim>\<open>validateCategoryForUpdate\<close> treats \<^verbatim>\<open>title\<close> as optional, so an object
  without a title is accepted. The code at such an input: the schema has no
  \<^verbatim>\<open>.optional()\<close>, and every object without a title is rejected with one issue on
  \<^verbatim>\<open>title\<close>.
\<close>

theorem validateCategoryForUpdate_requires_title:
  "map_of fs ''title'' = None \<Longrightarrow>
     validateCategoryForUpdate (JObject fs) = Inl [Issue [''title''] invalid_type None]"
  by (simp add: validateCategoryForUpdate_def z_string_def)

theorem validateCategoryForUpdate_requires_title_witness:
  "map_of ([] :: (string \<times> json) list) ''title'' = None
    \<and> validateCategoryForUpdate (JObject []) = Inl [Issue [''title''] invalid_type None]"
  using validateCategoryForUpdate_requires_title [of "[]"] by simp

lemma floor_three_halves: "\<lfloor>3 / 2 :: rat\<rfloor> = 1"
  by (simp add: floor_eq_iff)

text \<open>
  C4, as stated: an input whose \<^verbatim>\<open>categoryId\<close> is not an integer is rejected. It is
  accepted: \<^verbatim>\<open>z.number()\<close> has no \<^verbatim>\<open>.int()\<close>, and 3/2 passes.
\<close>

theorem validateQuestionForCreate_fraction_counterexample:
  "\<not> is_integer (3 / 2) \<and>
   validateQuestionForCreate
     (JObject [(''question'', JString ''What is CSS?''),
               (''answer'', JString ''A styling language''),
               (''categoryId'', JNumber (3 / 2))])
    = Inr \<lparr>qc_question = ''What is CSS?'', qc_answer = ''A styling language'',
           qc_categoryId = 3 / 2\<rparr>"
  by (simp add: validateQuestionForCreate_def z_string_def z_number_def is_integer_def
        floor_three_halves)

text \<open>
  C4, amended: \<^verbatim>\<open>validateQuestionForCreate\<close> requires \<^verbatim>\<open>categoryId\<close> to be a number,
  integral or not: it succeeds exactly when the input is an object whose \<^verbatim>\<open>question\<close>
  and \<^verbatim>\<open>answer\<close> are strings of length 3 to 1024 and whose \<^verbatim>\<open>categoryId\<close> is a
  number, and the validated data are these three values.
\<close>

theorem validateQuestionForCreate_accepts:
  "validateQuestionForCreate j = Inr d \<longleftrightarrow>
     (\<exists>fs. j = JObject fs
        \<and> map_of fs ''question'' = Some (JString (qc_question d))
        \<and> 3 \<le> length (qc_question d) \<and> length (qc_question d) \<le> 1024
        \<and> map_of fs ''answer'' = Some (JString (qc_answer d))
        \<and> 3 \<le> length (qc_answer d) \<and> length (qc_answer d) \<le> 1024
        \<and> map_of fs ''categoryId'' = Some (JNumber (qc_categoryId d)))"
  (is "?L \<longleftrightarrow> ?R")
proof
  assume L: ?L
  then obtain fs where j: "j = JObject fs"
    by (cases j) (simp_all add: validateQuestionForCreate_def)
  let ?q = "z_string 3 None 1024 None [''question''] (map_of fs ''question'')"
  let ?a = "z_string 3 None 1024 None [''answer''] (map_of fs ''answer'')"
  let ?c = "z_number [''categoryId''] (map_of fs ''categoryId'')"
  from L j have "?q = Inr (qc_question d) \<and> ?a = Inr (qc_answer d) \<and> ?c = Inr (qc_categoryId d)"
    by (cases ?q; cases ?a; cases ?c) (auto simp: validateQuestionForCreate_def)
  with j show ?R by (simp add: z_string_Inr z_number_Inr)
next
  assume ?R
  then obtain fs where j: "j = JObject fs"
    and "z_string 3 None 1024 None [''question''] (map_of fs ''question'') = Inr (qc_question d)"
    and "z_string 3 None 1024 None [''answer''] (map_of fs ''answer'') = Inr (qc_answer d)"
    and "z_number [''categoryId''] (map_of fs ''categoryId'') = Inr (qc_categoryId d)"
    by (auto simp: z_string_Inr z_number_Inr)
  then show ?L by (simp add: validateQuestionForCreate_def)
qed

theorem validateQuestionForCreate_accepts_witness:
  "validateQuestionForCreate
     (JObject [(''question'', JString ''What is CSS?''),
               (''answer'', JString ''A styling language''),
               (''categoryId'', JNumber 2)])
    = Inr \<lparr>qc_question = ''What is CSS?'', qc_answer = ''A styling language'',
           qc_categoryId = 2\<rparr>"
  using validateQuestionForCreate_accepts
    [of "JObject [(''question'', JString ''What is CSS?''),
                  (''answer'', JString ''A styling language''),
                  (''categoryId'', JNumber 2)]"
        "\<lparr>qc_question = ''What is CSS?'', qc_answer = ''A styling language'',
          qc_categoryId = 2\<rparr>"]
  by simp

section \<open>Category service: update, delete, titles\<close>

lemma find_SomeD: "find P xs = Some x \<Longrightarrow> x \<in> set xs \<and> P x"
  by (auto simp: find_Some_iff)

lemma categories_update_result:
  assumes "categories_findUnique db slug = Some existing"
    and "categories_update db slug title new_slug = Inr (updated, db')"
  shows "updated = existing\<lparr>cat_title := title, cat_slug := new_slug\<rparr>
    \<and> db' = db\<lparr>Categories :=
          map (\<lambda>c. if cat_slug c = slug then c\<lparr>cat_title := title, cat_slug := new_slug\<rparr> else c)
            (Categories db)\<rparr>"
  using assms by (auto simp: categories_update_def Let_def split: if_splits)

lemma categories_update_error:
  assumes "categories_findUnique db slug = Some existing"
    and "categories_update db slug title new_slug = Inl e"
  shows "e = UniqueConstraintViolation"
  using assms by (auto simp: categories_update_def Let_def split: if_splits)



text \<open>
  C5, as stated: the slug is recomputed exactly when the title changed and is otherwise
  the existing slug. On the row \<open>JavaScript\<close>/\<open>js\<close> of \<^verbatim>\<open>mockCategories\<close>, an
  update that supplies the same title leaves the title as it was and still replaces the
  slug \<open>js\<close> by \<open>javascript\<close>.
\<close>

theorem updateCategory_unchanged_title_counterexample:
  "categories_findUnique mockDatabase ''js'' =
      Some \<lparr>cat_id = 3, cat_title = ''JavaScript'', cat_slug = ''js''\<rparr>
   \<and> updateCategory mockDatabase ''js'' \<lparr>cu_title = Some ''JavaScript''\<rparr> =
      Inr (Some \<lparr>cat_id = 3, cat_title = ''JavaScript'', cat_slug = ''javascript''\<rparr>,
           mockDatabase\<lparr>Categories :=
             [\<lparr>cat_id = 1, cat_title = ''HTML'', cat_slug = ''html''\<rparr>,
              \<lparr>cat_id = 2, cat_title = ''CSS'', cat_slug = ''css''\<rparr>,
              \<lparr>cat_id = 3, cat_title = ''JavaScript'', cat_slug = ''javascript''\<rparr>]\<rparr>)"
  by code_simp

text \<open>
  C5, amended: \<^verbatim>\<open>updateCategory\<close> looks the category up by the current slug. With no
  such category it returns \<^verbatim>\<open>null\<close> and leaves the database as it is, without
  throwing; the only error it lets through is a unique-constraint violation of the store,
  for a category that exists. When the category exists and the update succeeds, the record
  returned keeps the id, has the title \<^verbatim>\<open>changes.title ?? existing.title\<close>, has the slug
  of the new title whenever a non-empty title is supplied (whether or not it differs from
  the existing title) and the existing slug otherwise, and is stored: the rows written are
  those whose slug is the original slug.
\<close>

theorem updateCategory_merge:
  "(categories_findUnique db slug = None \<longrightarrow> updateCategory db slug changes = Inr (None, db)) \<and>
   (\<forall>e. updateCategory db slug changes = Inl e \<longrightarrow>
      e = UniqueConstraintViolation \<and> categories_findUnique db slug \<noteq> None) \<and>
   (\<forall>existing r db'.
      categories_findUnique db slug = Some existing
        \<and> updateCategory db slug changes = Inr (r, db') \<longrightarrow>
      (\<exists>updated. r = Some updated
         \<and> cat_id updated = cat_id existing
         \<and> cat_title updated = coalesce (cu_title changes) (cat_title existing)
         \<and> cat_slug updated =
             (if truthy (cu_title changes) then slugify (cat_title updated) else cat_slug existing)
         \<and> updated \<in> set (Categories db')
         \<and> db' = db\<lparr>Categories :=
               map (\<lambda>c. if cat_slug c = slug
                         then c\<lparr>cat_title := cat_title updated, cat_slug := cat_slug updated\<rparr>
                         else c)
                 (Categories db)\<rparr>))"
proof (intro conjI allI impI)
  assume "categories_findUnique db slug = None"
  then show "updateCategory db slug changes = Inr (None, db)"
    by (simp add: updateCategory_def)
next
  fix e
  assume err: "updateCategory db slug changes = Inl e"
  then obtain existing where ex: "categories_findUnique db slug = Some existing"
    by (cases "categories_findUnique db slug") (simp_all add: updateCategory_def)
  with err obtain t s where "categories_update db slug t s = Inl e"
    by (auto simp: updateCategory_def Let_def split: sum.splits)
  with ex show "e = UniqueConstraintViolation"
    by (rule categories_update_error)
  from ex show "categories_findUnique db slug \<noteq> None" by simp
next
  fix existing r db'
  assume a: "categories_findUnique db slug = Some existing
        \<and> updateCategory db slug changes = Inr (r, db')"
  let ?t = "coalesce (cu_title changes) (cat_title existing)"
  let ?s = "case cu_title changes of None \<Rightarrow> cat_slug existing
            | Some title \<Rightarrow> if truthy (Some title) then slugify title else cat_slug existing"
  from a obtain updated where r: "r = Some updated"
    and upd: "categories_update db slug ?t ?s = Inr (updated, db')"
    by (auto simp: updateCategory_def Let_def split: sum.splits)
  from a upd have res: "updated = existing\<lparr>cat_title := ?t, cat_slug := ?s\<rparr>"
    and db': "db' = db\<lparr>Categories :=
          map (\<lambda>c. if cat_slug c = slug then c\<lparr>cat_title := ?t, cat_slug := ?s\<rparr> else c)
            (Categories db)\<rparr>"
    using categories_update_result by blast+
  have s: "?s = (if truthy (cu_title changes) then slugify ?t else cat_slug existing)"
    by (cases "cu_title changes") (simp_all add: truthy_def coalesce_def)
  from a have mem: "existing \<in> set (Categories db)" and sl: "cat_slug existing = slug"
    by (auto simp: categories_findUnique_def dest: find_SomeD)
  have "updated \<in> set (Categories db')"
    unfolding db' res using mem sl by (auto simp: image_iff intro!: bexI[of _ existing])
  with r res s db'
  show "\<exists>updated. r = Some updated
         \<and> cat_id updated = cat_id existing
         \<and> cat_title updated = coalesce (cu_title changes) (cat_title existing)
         \<and> cat_slug updated =
             (if truthy (cu_title changes) then slugify (cat_title updated) else cat_slug existing)
         \<and> updated \<in> set (Categories db')
         \<and> db' = db\<lparr>Categories :=
               map (\<lambda>c. if cat_slug c = slug
                         then c\<lparr>cat_title := cat_title updated, cat_slug := cat_slug updated\<rparr>
                         else c)
                 (Categories db)\<rparr>"
    by simp
qed

theorem updateCategory_merge_witness:
  "categories_findUnique mockDatabase ''nonexistent'' = None
   \<and> updateCategory mockDatabase ''nonexistent'' \<lparr>cu_title = Some ''This will fail''\<rparr>
       = Inr (None, mockDatabase)
   \<and> categories_findUnique mockDatabase ''html'' = Some (hd mockCategories)
   \<and> updateCategory mockDatabase ''html'' \<lparr>cu_title = Some ''Updated HTML''\<rparr> =
       Inr (Some \<lparr>cat_id = 1, cat_title = ''Updated HTML'', cat_slug = ''updated-html''\<rparr>,
            mockDatabase\<lparr>Categories :=
              \<lparr>cat_id = 1, cat_title = ''Updated HTML'', cat_slug = ''updated-html''\<rparr>
                # tl mockCategories\<rparr>)
   \<and> \<lparr>cat_id = 1, cat_title = ''Updated HTML'', cat_slug = ''updated-html''\<rparr>
        \<in> set (Categories (mockDatabase\<lparr>Categories :=
              \<lparr>cat_id = 1, cat_title = ''Updated HTML'', cat_slug = ''updated-html''\<rparr>
                # tl mockCategories\<rparr>))"
proof -
  let ?u = "\<lparr>cat_id = 1, cat_title = ''Updated HTML'', cat_slug = ''updated-html''\<rparr>"
  let ?db' = "mockDatabase\<lparr>Categories := ?u # tl mockCategories\<rparr>"
  have c0: "categories_findUnique mockDatabase ''nonexistent'' = None" by code_simp
  have c1: "categories_findUnique mockDatabase ''html'' = Some (hd mockCategories)" by code_simp
  have u1: "updateCategory mockDatabase ''html'' \<lparr>cu_title = Some ''Updated HTML''\<rparr>
      = Inr (Some ?u, ?db')"
    by code_simp
  from updateCategory_merge
    [of mockDatabase "''nonexistent''" "\<lparr>cu_title = Some ''This will fail''\<rparr>"] c0
  have r0: "updateCategory mockDatabase ''nonexistent'' \<lparr>cu_title = Some ''This will fail''\<rparr>
      = Inr (None, mockDatabase)"
    by blast
  from updateCategory_merge
    [of mockDatabase "''html''" "\<lparr>cu_title = Some ''Updated HTML''\<rparr>"] c1 u1
  have "\<exists>updated. Some ?u = Some updated \<and> updated \<in> set (Categories ?db')"
    by blast
  then have m: "?u \<in> set (Categories ?db')" by simp
  from c0 r0 c1 u1 m show ?thesis by blast
qed






section \<open>Question service: create, list by category, update\<close>

lemma createQuestion_result:
  "createQuestion xss db d = Inr (q, db') \<Longrightarrow>
     q_question q = xss (qc_question d) \<and> q_answer q = xss (qc_answer d)
     \<and> q_slug q = slugify (qc_question d) \<and> rat_of_int (q_categoryId q) = qc_categoryId d
     \<and> Questions db' = Questions db @ [q]"
  by (auto simp: createQuestion_def questions_create_def Let_def is_integer_def split: if_splits)

text \<open>
  C2: \<^verbatim>\<open>createQuestion\<close> derives the stored slug from the sanitized question. The code
  at a question with markup, with the escaping of angle brackets as the sanitizer: the
  question and the answer are stored sanitized, and the slug stored is the slug of the raw
  question, \<open>scriptalert1script\<close>, not the slug of the sanitized one.
\<close>

theorem createQuestion_slug_from_raw_text:
  "createQuestion escapeHtml mockDatabase
      \<lparr>qc_question = ''<script>alert(1)</script>'', qc_answer = ''New test answer'',
       qc_categoryId = 1\<rparr> =
     Inr (\<lparr>q_id = 3, q_question = ''&lt;script&gt;alert(1)&lt;/script&gt;'',
           q_answer = ''New test answer'', q_slug = ''scriptalert1script'', q_categoryId = 1\<rparr>,
          mockDatabase\<lparr>Questions := mockQuestions @
            [\<lparr>q_id = 3, q_question = ''&lt;script&gt;alert(1)&lt;/script&gt;'',
              q_answer = ''New test answer'', q_slug = ''scriptalert1script'',
              q_categoryId = 1\<rparr>],
            Questions_id_seq := 4\<rparr>)
   \<and> slugify (escapeHtml ''<script>alert(1)</script>'') = ''ltscriptgtalert1ltscriptgt''"
  by code_simp

text \<open>
  C7: \<^verbatim>\<open>getQuestionByCategorySlug\<close> returns \<^verbatim>\<open>null\<close> for a slug of no category;
  for the slug of a category it returns a list: the questions of that category's id, each
  as often as it is in the table, ordered by ascending id, and the empty list when the
  category has no question.
\<close>

theorem getQuestionByCategorySlug_distinguishes:
  "(categories_findUnique db slug = None \<longrightarrow> getQuestionByCategorySlug db slug = None) \<and>
   (\<forall>c. categories_findUnique db slug = Some c \<longrightarrow>
      (\<exists>qs. getQuestionByCategorySlug db slug = Some qs
         \<and> mset qs = filter_mset (\<lambda>q. q_categoryId q = cat_id c) (mset (Questions db))
         \<and> sorted (map q_id qs)
         \<and> (\<not> list_ex (\<lambda>q. q_categoryId q = cat_id c) (Questions db) \<longrightarrow> qs = [])))"
proof (intro conjI allI impI)
  assume "categories_findUnique db slug = None"
  then show "getQuestionByCategorySlug db slug = None"
    by (simp add: getQuestionByCategorySlug_def)
next
  fix c
  assume c: "categories_findUnique db slug = Some c"
  let ?qs = "sort_key q_id (filter (\<lambda>q. q_categoryId q = cat_id c) (Questions db))"
  from c have "getQuestionByCategorySlug db slug = Some ?qs"
    by (simp add: getQuestionByCategorySlug_def questions_findMany_def)
  moreover have "mset ?qs = filter_mset (\<lambda>q. q_categoryId q = cat_id c) (mset (Questions db))"
    by simp
  moreover have "sorted (map q_id ?qs)"
    by (rule sorted_sort_key)
  moreover have "\<not> list_ex (\<lambda>q. q_categoryId q = cat_id c) (Questions db) \<longrightarrow> ?qs = []"
    by (simp add: list_ex_iff filter_empty_conv)
  ultimately show "\<exists>qs. getQuestionByCategorySlug db slug = Some qs
         \<and> mset qs = filter_mset (\<lambda>q. q_categoryId q = cat_id c) (mset (Questions db))
         \<and> sorted (map q_id qs)
         \<and> (\<not> list_ex (\<lambda>q. q_categoryId q = cat_id c) (Questions db) \<longrightarrow> qs = [])"
    by blast
qed

theorem getQuestionByCategorySlug_distinguishes_witness:
  "categories_findUnique mockDatabase ''nonexistent'' = None
   \<and> getQuestionByCategorySlug mockDatabase ''nonexistent'' = None
   \<and> categories_findUnique mockDatabase ''js'' = Some (mockCategories ! 2)
   \<and> \<not> list_ex (\<lambda>q. q_categoryId q = cat_id (mockCategories ! 2)) (Questions mockDatabase)
   \<and> getQuestionByCategorySlug mockDatabase ''js'' = Some []"
proof -
  have c0: "categories_findUnique mockDatabase ''nonexistent'' = None" by code_simp
  have c1: "categories_findUnique mockDatabase ''js'' = Some (mockCategories ! 2)" by code_simp
  have nq: "\<not> list_ex (\<lambda>q. q_categoryId q = cat_id (mockCategories ! 2)) (Questions mockDatabase)"
    by code_simp
  from getQuestionByCategorySlug_distinguishes [of mockDatabase "''nonexistent''"] c0
  have r0: "getQuestionByCategorySlug mockDatabase ''nonexistent'' = None" by blast
  from getQuestionByCategorySlug_distinguishes [of mockDatabase "''js''"] c1 nq
  have r1: "getQuestionByCategorySlug mockDatabase ''js'' = Some []" by auto
  from c0 c1 nq r0 r1 show ?thesis by blast
qed

lemma validateQuestionForUpdate_Inr:
  assumes "validateQuestionForUpdate j = Inr ch"
  shows "(\<forall>q. qu_question ch = Some q \<longrightarrow> 3 \<le> length q \<and> length q \<le> 1024)
    \<and> (\<forall>a. qu_answer ch = Some a \<longrightarrow> 3 \<le> length a \<and> length a \<le> 1024)"
proof -
  from assms obtain fs where j: "j = JObject fs"
    by (cases j) (simp_all add: validateQuestionForUpdate_def)
  let ?q = "z_optional (z_string 3 None 1024 None [''question'']) (map_of fs ''question'')"
  let ?a = "z_optional (z_string 3 None 1024 None [''answer'']) (map_of fs ''answer'')"
  let ?c = "z_optional (z_number [''categoryId'']) (map_of fs ''categoryId'')"
  from assms j have "?q = Inr (qu_question ch) \<and> ?a = Inr (qu_answer ch)"
    by (cases ?q; cases ?a; cases ?c) (auto simp: validateQuestionForUpdate_def)
  then show ?thesis
    by (auto dest!: z_optional_Inr simp: z_string_Inr)
qed

lemma questions_update_result:
  assumes "questions_findUnique db i = Some existing"
    and "questions_update db i question answer categoryId slug = Inr (updated, db')"
  shows "updated = existing\<lparr>q_question := question, q_answer := answer, q_slug := slug,
                            q_categoryId := \<lfloor>categoryId\<rfloor>\<rparr>
    \<and> rat_of_int \<lfloor>categoryId\<rfloor> = categoryId
    \<and> db' = db\<lparr>Questions :=
          map (\<lambda>q. if q_id q = i
                    then q\<lparr>q_question := question, q_answer := answer, q_slug := slug,
                           q_categoryId := \<lfloor>categoryId\<rfloor>\<rparr>
                    else q)
            (Questions db)\<rparr>"
  using assms
  by (auto simp: questions_update_def Let_def is_integer_def split: if_splits)

text \<open>When the store accepts an update of an existing question.\<close>

lemma questions_update_succeeds:
  assumes "questions_findUnique db i = Some existing"
  shows "(\<exists>r. questions_update db i question answer categoryId slug = Inr r) \<longleftrightarrow>
     is_integer categoryId
     \<and> list_ex (\<lambda>c. cat_id c = \<lfloor>categoryId\<rfloor>) (Categories db)
     \<and> \<not> list_ex (\<lambda>q. q_id q \<noteq> i \<and> q_slug q = slug) (Questions db)"
  using assms by (auto simp: questions_update_def Let_def)

text \<open>
  For a validated change set, the values that \<^verbatim>\<open>updateQuestion\<close> hands to the store.
\<close>

lemma updateQuestion_validated:
  assumes "validateQuestionForUpdate j = Inr changes"
    and "questions_findUnique db i = Some existing"
  shows "updateQuestion xss db i changes =
     (case questions_update db i
        (case qu_question changes of None \<Rightarrow> q_question existing | Some q \<Rightarrow> xss q)
        (case qu_answer changes of None \<Rightarrow> q_answer existing | Some a \<Rightarrow> xss a)
        (case qu_categoryId changes of None \<Rightarrow> rat_of_int (q_categoryId existing) | Some c \<Rightarrow> c)
        (case qu_question changes of None \<Rightarrow> q_slug existing | Some q \<Rightarrow> slugify (xss q)) of
        Inl e \<Rightarrow> Inl e
      | Inr (updated, db') \<Rightarrow> Inr (Some updated, db'))"
proof -
  from assms(1) have len:
    "\<forall>q. qu_question changes = Some q \<longrightarrow> 3 \<le> length q"
    "\<forall>a. qu_answer changes = Some a \<longrightarrow> 3 \<le> length a"
    using validateQuestionForUpdate_Inr by blast+
  have sq: "(case qu_question changes of None \<Rightarrow> q_question existing
             | Some question \<Rightarrow> if truthy (Some question) then xss question
                                else q_question existing)
        = (case qu_question changes of None \<Rightarrow> q_question existing | Some q \<Rightarrow> xss q)"
    using len(1) by (cases "qu_question changes") (auto simp: truthy_def)
  have sa: "(case qu_answer changes of None \<Rightarrow> q_answer existing
             | Some answer \<Rightarrow> if truthy (Some answer) then xss answer else q_answer existing)
        = (case qu_answer changes of None \<Rightarrow> q_answer existing | Some a \<Rightarrow> xss a)"
    using len(2) by (cases "qu_answer changes") (auto simp: truthy_def)
  have sl: "(if truthy (qu_question changes)
             then slugify (case qu_question changes of None \<Rightarrow> q_question existing
                           | Some q \<Rightarrow> xss q)
             else q_slug existing)
        = (case qu_question changes of None \<Rightarrow> q_slug existing | Some q \<Rightarrow> slugify (xss q))"
    using len(1) by (cases "qu_question changes") (auto simp: truthy_def)
  show ?thesis
    using assms(2) by (simp add: updateQuestion_def Let_def sq sa sl coalesce_def)
qed

text \<open>
  C6: for an existing question and a change set that passed validation,
  \<^verbatim>\<open>updateQuestion\<close> succeeds exactly when the store accepts the merged record (the
  merged \<^verbatim>\<open>categoryId\<close> is the integral id of a category and no other question has the
  merged slug), and then it returns and stores the existing record with each supplied
  field replaced: a supplied question or answer is sanitized first, the slug is the slug
  of the sanitized new question when a question is supplied and the existing slug
  otherwise, and a field that is not supplied, \<^verbatim>\<open>categoryId\<close> included, keeps its
  existing value. No other row changes.
\<close>

theorem updateQuestion_partial:
  assumes "validateQuestionForUpdate j = Inr changes"
    and "questions_findUnique db i = Some existing"
  shows "((\<exists>r db'. updateQuestion xss db i changes = Inr (r, db')) \<longleftrightarrow>
       is_integer (case qu_categoryId changes of
                     None \<Rightarrow> rat_of_int (q_categoryId existing) | Some c \<Rightarrow> c)
       \<and> list_ex (\<lambda>c. rat_of_int (cat_id c) =
                    (case qu_categoryId changes of
                       None \<Rightarrow> rat_of_int (q_categoryId existing) | Some c \<Rightarrow> c))
            (Categories db)
       \<and> \<not> list_ex (\<lambda>q. q_id q \<noteq> i \<and> q_slug q =
                    (case qu_question changes of
                       None \<Rightarrow> q_slug existing | Some q \<Rightarrow> slugify (xss q)))
            (Questions db)) \<and>
     (\<forall>r db'. updateQuestion xss db i changes = Inr (r, db') \<longrightarrow>
       (\<exists>updated. r = Some updated
         \<and> q_id updated = q_id existing
         \<and> q_question updated =
             (case qu_question changes of None \<Rightarrow> q_question existing | Some q \<Rightarrow> xss q)
         \<and> q_answer updated =
             (case qu_answer changes of None \<Rightarrow> q_answer existing | Some a \<Rightarrow> xss a)
         \<and> q_slug updated =
             (case qu_question changes of None \<Rightarrow> q_slug existing | Some q \<Rightarrow> slugify (xss q))
         \<and> rat_of_int (q_categoryId updated) =
             (case qu_categoryId changes of
                None \<Rightarrow> rat_of_int (q_categoryId existing) | Some c \<Rightarrow> c)
         \<and> updated \<in> set (Questions db')
         \<and> Questions db' =
             map (\<lambda>q. if q_id q = i
                       then q\<lparr>q_question := q_question updated, q_answer := q_answer updated,
                              q_slug := q_slug updated, q_categoryId := q_categoryId updated\<rparr>
                       else q)
               (Questions db)
         \<and> Categories db' = Categories db))"
proof (intro conjI allI impI)
  let ?sq = "case qu_question changes of None \<Rightarrow> q_question existing | Some q \<Rightarrow> xss q"
  let ?sa = "case qu_answer changes of None \<Rightarrow> q_answer existing | Some a \<Rightarrow> xss a"
  let ?sl = "case qu_question changes of None \<Rightarrow> q_slug existing | Some q \<Rightarrow> slugify (xss q)"
  let ?c = "case qu_categoryId changes of
              None \<Rightarrow> rat_of_int (q_categoryId existing) | Some c \<Rightarrow> c"
  note eq = updateQuestion_validated [OF assms, of xss]
  have "(\<exists>r db'. updateQuestion xss db i changes = Inr (r, db')) \<longleftrightarrow>
      (\<exists>r. questions_update db i ?sq ?sa ?c ?sl = Inr r)"
    unfolding eq by (cases "questions_update db i ?sq ?sa ?c ?sl") auto
  also have "\<dots> \<longleftrightarrow> is_integer ?c
     \<and> list_ex (\<lambda>c. cat_id c = \<lfloor>?c\<rfloor>) (Categories db)
     \<and> \<not> list_ex (\<lambda>q. q_id q \<noteq> i \<and> q_slug q = ?sl) (Questions db)"
    using assms(2) by (rule questions_update_succeeds)
  also have "\<dots> \<longleftrightarrow> is_integer ?c
     \<and> list_ex (\<lambda>c. rat_of_int (cat_id c) = ?c) (Categories db)
     \<and> \<not> list_ex (\<lambda>q. q_id q \<noteq> i \<and> q_slug q = ?sl) (Questions db)"
  proof (cases "is_integer ?c")
    case True
    then have "\<And>k. (k = \<lfloor>?c\<rfloor>) = (rat_of_int k = ?c)"
      unfolding is_integer_def by (metis floor_of_int)
    then show ?thesis by simp
  next
    case False
    then show ?thesis by simp
  qed
  finally show "(\<exists>r db'. updateQuestion xss db i changes = Inr (r, db')) \<longleftrightarrow>
       is_integer ?c
       \<and> list_ex (\<lambda>c. rat_of_int (cat_id c) = ?c) (Categories db)
       \<and> \<not> list_ex (\<lambda>q. q_id q \<noteq> i \<and> q_slug q = ?sl) (Questions db)" .
  fix r db'
  assume "updateQuestion xss db i changes = Inr (r, db')"
  then obtain updated where r: "r = Some updated"
    and upd: "questions_update db i ?sq ?sa ?c ?sl = Inr (updated, db')"
    unfolding eq by (auto split: sum.splits)
  from assms(2) upd
  have res: "updated = existing\<lparr>q_question := ?sq, q_answer := ?sa, q_slug := ?sl,
                                q_categoryId := \<lfloor>?c\<rfloor>\<rparr>"
    and int: "rat_of_int \<lfloor>?c\<rfloor> = ?c"
    and db': "db' = db\<lparr>Questions :=
          map (\<lambda>q. if q_id q = i
                    then q\<lparr>q_question := ?sq, q_answer := ?sa, q_slug := ?sl,
                           q_categoryId := \<lfloor>?c\<rfloor>\<rparr>
                    else q)
            (Questions db)\<rparr>"
    using questions_update_result by blast+
  from assms(2) have mem: "existing \<in> set (Questions db)" and id: "q_id existing = i"
    by (auto simp: questions_findUnique_def dest: find_SomeD)
  have m: "updated \<in> set (Questions db')"
    unfolding db' res using mem id by (auto simp: image_iff intro!: bexI[of _ existing])
  have f1: "q_id updated = q_id existing" and f2: "q_question updated = ?sq"
    and f3: "q_answer updated = ?sa" and f4: "q_slug updated = ?sl"
    and f5: "q_categoryId updated = \<lfloor>?c\<rfloor>"
    unfolding res by simp_all
  have qs: "Questions db' =
         map (\<lambda>q. if q_id q = i
                   then q\<lparr>q_question := q_question updated, q_answer := q_answer updated,
                          q_slug := q_slug updated, q_categoryId := q_categoryId updated\<rparr>
                   else q)
           (Questions db)"
    unfolding f2 f3 f4 f5 unfolding db' by simp
  have cs: "Categories db' = Categories db" unfolding db' by simp
  have f5': "rat_of_int (q_categoryId updated) = ?c"
    unfolding f5 by (rule int)
  show "\<exists>updated. r = Some updated
         \<and> q_id updated = q_id existing
         \<and> q_question updated = ?sq
         \<and> q_answer updated = ?sa
         \<and> q_slug updated = ?sl
         \<and> rat_of_int (q_categoryId updated) = ?c
         \<and> updated \<in> set (Questions db')
         \<and> Questions db' =
             map (\<lambda>q. if q_id q = i
                       then q\<lparr>q_question := q_question updated, q_answer := q_answer updated,
                              q_slug := q_slug updated, q_categoryId := q_categoryId updated\<rparr>
                       else q)
               (Questions db)
         \<and> Categories db' = Categories db"
    using r f1 f2 f3 f4 f5' m qs cs by blast
qed

theorem updateQuestion_partial_witness:
  "validateQuestionForUpdate (JObject [(''question'', JString ''Is 1 < 2?'')])
      = Inr \<lparr>qu_question = Some ''Is 1 < 2?'', qu_answer = None, qu_categoryId = None\<rparr>
   \<and> validateQuestionForUpdate (JObject [(''answer'', JString ''<b>New</b> answer'')])
      = Inr \<lparr>qu_question = None, qu_answer = Some ''<b>New</b> answer'', qu_categoryId = None\<rparr>
   \<and> validateQuestionForUpdate (JObject [(''categoryId'', JNumber 2)])
      = Inr \<lparr>qu_question = None, qu_answer = None, qu_categoryId = Some 2\<rparr>
   \<and> questions_findUnique mockDatabase 1 = Some (hd mockQuestions)
   \<and> updateQuestion escapeHtml mockDatabase 1
        \<lparr>qu_question = Some ''Is 1 < 2?'', qu_answer = None, qu_categoryId = None\<rparr> =
       Inr (Some \<lparr>q_id = 1, q_question = ''Is 1 &lt; 2?'', q_answer = ''Test Answer 1'',
                  q_slug = ''is-1-lt-2'', q_categoryId = 1\<rparr>,
            mockDatabase\<lparr>Questions :=
              \<lparr>q_id = 1, q_question = ''Is 1 &lt; 2?'', q_answer = ''Test Answer 1'',
                q_slug = ''is-1-lt-2'', q_categoryId = 1\<rparr> # tl mockQuestions\<rparr>)
   \<and> \<lparr>q_id = 1, q_question = ''Is 1 &lt; 2?'', q_answer = ''Test Answer 1'',
        q_slug = ''is-1-lt-2'', q_categoryId = 1\<rparr>
        \<in> set (Questions (mockDatabase\<lparr>Questions :=
              \<lparr>q_id = 1, q_question = ''Is 1 &lt; 2?'', q_answer = ''Test Answer 1'',
                q_slug = ''is-1-lt-2'', q_categoryId = 1\<rparr> # tl mockQuestions\<rparr>))
   \<and> (\<exists>db'. updateQuestion escapeHtml mockDatabase 1
          \<lparr>qu_question = None, qu_answer = Some ''<b>New</b> answer'', qu_categoryId = None\<rparr> =
        Inr (Some \<lparr>q_id = 1, q_question = ''Test Question 1'',
                   q_answer = ''&lt;b&gt;New&lt;/b&gt; answer'',
                   q_slug = ''test-question-1'', q_categoryId = 1\<rparr>, db'))
   \<and> (\<exists>db'. updateQuestion escapeHtml mockDatabase 1
          \<lparr>qu_question = None, qu_answer = None, qu_categoryId = Some 2\<rparr> =
        Inr (Some \<lparr>q_id = 1, q_question = ''Test Question 1'', q_answer = ''Test Answer 1'',
                   q_slug = ''test-question-1'', q_categoryId = 2\<rparr>, db'))
   \<and> (\<forall>r db'. updateQuestion escapeHtml mockDatabase 1
          \<lparr>qu_question = None, qu_answer = None, qu_categoryId = Some 7\<rparr> \<noteq> Inr (r, db'))"
proof -
  let ?ca = "\<lparr>qu_question = Some ''Is 1 < 2?'', qu_answer = None, qu_categoryId = None\<rparr>"
  let ?cb = "\<lparr>qu_question = None, qu_answer = Some ''<b>New</b> answer'',
               qu_categoryId = None\<rparr>"
  let ?cc = "\<lparr>qu_question = None, qu_answer = None, qu_categoryId = Some (2 :: rat)\<rparr>"
  let ?cd = "\<lparr>qu_question = None, qu_answer = None, qu_categoryId = Some (7 :: rat)\<rparr>"
  let ?ua = "\<lparr>q_id = 1, q_question = ''Is 1 &lt; 2?'', q_answer = ''Test Answer 1'',
              q_slug = ''is-1-lt-2'', q_categoryId = 1\<rparr>"
  let ?ub = "\<lparr>q_id = 1, q_question = ''Test Question 1'',
              q_answer = ''&lt;b&gt;New&lt;/b&gt; answer'',
              q_slug = ''test-question-1'', q_categoryId = 1\<rparr>"
  let ?uc = "\<lparr>q_id = 1, q_question = ''Test Question 1'', q_answer = ''Test Answer 1'',
              q_slug = ''test-question-1'', q_categoryId = 2\<rparr>"
  let ?dba = "mockDatabase\<lparr>Questions := ?ua # tl mockQuestions\<rparr>"
  have va: "validateQuestionForUpdate (JObject [(''question'', JString ''Is 1 < 2?'')]) = Inr ?ca"
    by (simp add: validateQuestionForUpdate_def z_optional_def z_string_def)
  have vb: "validateQuestionForUpdate (JObject [(''answer'', JString ''<b>New</b> answer'')])
      = Inr ?cb"
    by (simp add: validateQuestionForUpdate_def z_optional_def z_string_def)
  have vc: "validateQuestionForUpdate (JObject [(''categoryId'', JNumber 2)]) = Inr ?cc"
    by (simp add: validateQuestionForUpdate_def z_optional_def z_number_def)
  have vd: "validateQuestionForUpdate (JObject [(''categoryId'', JNumber 7)]) = Inr ?cd"
    by (simp add: validateQuestionForUpdate_def z_optional_def z_number_def)
  have f: "questions_findUnique mockDatabase 1 = Some (hd mockQuestions)" by code_simp
  have ua: "updateQuestion escapeHtml mockDatabase 1 ?ca = Inr (Some ?ua, ?dba)" by code_simp
  from updateQuestion_partial [OF va f, of escapeHtml] ua
  have ma: "?ua \<in> set (Questions ?dba)" by blast
  \<comment> \<open>an answer alone: the store accepts, so the update succeeds, and the fields follow\<close>
  have sb: "is_integer (rat_of_int (q_categoryId (hd mockQuestions)))
      \<and> list_ex (\<lambda>c. rat_of_int (cat_id c) = rat_of_int (q_categoryId (hd mockQuestions)))
           (Categories mockDatabase)
      \<and> \<not> list_ex (\<lambda>q. q_id q \<noteq> 1 \<and> q_slug q = q_slug (hd mockQuestions))
           (Questions mockDatabase)"
    by code_simp
  note Tb = updateQuestion_partial [OF vb f, of escapeHtml]
  from Tb sb obtain rb dbb where
    rb: "updateQuestion escapeHtml mockDatabase 1 ?cb = Inr (rb, dbb)"
    by auto
  with Tb obtain u where u: "rb = Some u" "q_id u = q_id (hd mockQuestions)"
    "q_question u = q_question (hd mockQuestions)"
    "q_answer u = escapeHtml ''<b>New</b> answer''"
    "q_slug u = q_slug (hd mockQuestions)"
    "rat_of_int (q_categoryId u) = rat_of_int (q_categoryId (hd mockQuestions))"
    by auto
  have e: "escapeHtml ''<b>New</b> answer'' = ''&lt;b&gt;New&lt;/b&gt; answer''" by code_simp
  have h: "hd mockQuestions = \<lparr>q_id = 1, q_question = ''Test Question 1'',
      q_answer = ''Test Answer 1'', q_slug = ''test-question-1'', q_categoryId = 1\<rparr>"
    by (simp add: mockQuestions_def)
  from u e h have "u = ?ub" by (cases u) simp
  with rb u(1) have bb: "\<exists>db'. updateQuestion escapeHtml mockDatabase 1 ?cb = Inr (Some ?ub, db')"
    by auto
  \<comment> \<open>a category alone\<close>
  have sc: "is_integer 2
      \<and> list_ex (\<lambda>c. rat_of_int (cat_id c) = 2) (Categories mockDatabase)
      \<and> \<not> list_ex (\<lambda>q. q_id q \<noteq> 1 \<and> q_slug q = q_slug (hd mockQuestions))
           (Questions mockDatabase)"
    by code_simp
  note Tc = updateQuestion_partial [OF vc f, of escapeHtml]
  from Tc sc obtain rc dbc where
    rc: "updateQuestion escapeHtml mockDatabase 1 ?cc = Inr (rc, dbc)"
    by auto
  with Tc obtain w where w: "rc = Some w" "q_id w = q_id (hd mockQuestions)"
    "q_question w = q_question (hd mockQuestions)"
    "q_answer w = q_answer (hd mockQuestions)"
    "q_slug w = q_slug (hd mockQuestions)"
    "rat_of_int (q_categoryId w) = 2"
    by auto
  from w(6) have "q_categoryId w = 2" by linarith
  with w h have "w = ?uc" by (cases w) simp
  with rc w(1) have cc: "\<exists>db'. updateQuestion escapeHtml mockDatabase 1 ?cc = Inr (Some ?uc, db')"
    by auto
  \<comment> \<open>a category that does not exist: the store refuses\<close>
  have sd: "\<not> list_ex (\<lambda>c. rat_of_int (cat_id c) = 7) (Categories mockDatabase)"
    by code_simp
  from updateQuestion_partial [OF vd f, of escapeHtml] sd
  have dd: "\<forall>r db'. updateQuestion escapeHtml mockDatabase 1 ?cd \<noteq> Inr (r, db')"
    by auto
  from va vb vc f ua ma bb cc dd show ?thesis by blast
qed

section \<open>The routes of questions by id: invalid and missing ids\<close>

lemma takeWhile_Nil_hd: "takeWhile p s = [] \<longleftrightarrow> (case s of [] \<Rightarrow> True | c # r \<Rightarrow> \<not> p c)"
  by (cases s) simp_all

text \<open>
  \<^verbatim>\<open>parseInt\<close> gives \<^verbatim>\<open>NaN\<close> exactly when the string, after leading whitespace and
  one sign, does not start with a decimal digit.
\<close>

lemma parseInt10_NaN:
  "parseInt10 s = NaN \<longleftrightarrow>
     (case after_sign (dropWhile is_space s) of [] \<Rightarrow> True | c # r \<Rightarrow> \<not> is_digit c)"
  by (simp add: parseInt10_def Let_def takeWhile_Nil_hd)

lemma numeric_not_space: "is_digit c \<Longrightarrow> \<not> is_space c \<and> c \<noteq> CHR ''-'' \<and> c \<noteq> CHR ''+''"
  by (auto simp: is_digit_def is_space_def code_def)

lemma numeric_passes: "numeric s \<Longrightarrow> parseInt10 s \<noteq> NaN"
proof -
  assume "numeric s"
  then obtain c r where s: "s = c # r" and c: "is_digit c"
    by (cases s) (auto simp: numeric_def)
  from c have "\<not> is_space c" "c \<noteq> CHR ''-''" "c \<noteq> CHR ''+''"
    using numeric_not_space by blast+
  with s c show ?thesis
    by (simp add: parseInt10_NaN after_sign_def)
qed

lemma call_with_id_Inr:
  "call_with_id n f = Inr x \<Longrightarrow> \<exists>i. n = Integer i \<and> - 2147483648 \<le> i \<and> i < 2147483648 \<and> f i = Inr x"
  by (auto simp: call_with_id_def Int_column_def split: js_number.splits if_splits sum.splits)

lemma get_questions_id_404:
  assumes "status (get_questions_id db p) = 404"
  shows "\<exists>i. parseInt10 p = Integer i \<and> - 2147483648 \<le> i \<and> i < 2147483648
           \<and> getQuestionById db i = None"
proof -
  let ?r = "call_with_id (parseInt10 p) (\<lambda>i. Inr (getQuestionById db i) :: prisma_error + _)"
  from assms have "?r = Inr None"
    by (auto simp: get_questions_id_def Let_def split: if_splits sum.splits option.splits)
  then show ?thesis by (auto dest: call_with_id_Inr)
qed

lemma deleteQuestion_None:
  "deleteQuestion db i = Inr (None, db') \<Longrightarrow> getQuestionById db i = None"
  by (auto simp: deleteQuestion_def getQuestionById_def split: option.splits sum.splits)

lemma updateQuestion_None:
  "updateQuestion xss db i ch = Inr (None, db') \<Longrightarrow> getQuestionById db i = None"
  by (auto simp: updateQuestion_def getQuestionById_def Let_def split: option.splits sum.splits)

lemma delete_questions_id_404:
  assumes "status (fst (delete_questions_id db p)) = 404"
  shows "\<exists>i. parseInt10 p = Integer i \<and> - 2147483648 \<le> i \<and> i < 2147483648
           \<and> getQuestionById db i = None"
proof -
  from assms obtain db' where "call_with_id (parseInt10 p) (deleteQuestion db) = Inr (None, db')"
    by (auto simp: delete_questions_id_def Let_def
        split: if_splits sum.splits option.splits prod.splits)
  then show ?thesis by (auto dest!: call_with_id_Inr dest: deleteQuestion_None)
qed

lemma patch_questions_id_404:
  assumes "status (fst (patch_questions_id xss db p b)) = 404"
  shows "\<exists>i. parseInt10 p = Integer i \<and> - 2147483648 \<le> i \<and> i < 2147483648
           \<and> getQuestionById db i = None"
proof -
  from assms obtain data db' where
    "call_with_id (parseInt10 p) (\<lambda>i. updateQuestion xss db i data) = Inr (None, db')"
    by (auto simp: patch_questions_id_def Let_def
        split: if_splits sum.splits option.splits prod.splits)
  then show ?thesis by (auto dest!: call_with_id_Inr dest: updateQuestion_None)
qed

text \<open>
  An id beyond the \<^verbatim>\<open>Int\<close> column makes the lookup throw: the routes answer 500.
\<close>

lemma questions_id_out_of_range:
  "get_questions_id mockDatabase ''2147483648'' = Response 500 (ErrorBody ''Internal error'')
   \<and> delete_questions_id mockDatabase ''2147483648'' =
        (Response 500 (ErrorBody ''Internal error''), mockDatabase)
   \<and> parseInt10 ''9007199254740993'' = Beyond
   \<and> get_questions_id mockDatabase ''9007199254740993'' =
        Response 500 (ErrorBody ''Internal error'')"
  by code_simp

text \<open>
  C9, as stated: an id that is not a numeric string is answered with 400 without a lookup,
  and 404 is reached only for numeric ids. \<^verbatim>\<open>parseInt\<close> reads the digits an id starts
  with: \<open>1abc\<close> is looked up as 1 and answered with 200, and \<open>12abc\<close> is looked up as
  12 and answered with 404.
\<close>

theorem questions_id_prefix_counterexample:
  "\<not> numeric ''1abc'' \<and> \<not> numeric ''12abc''
   \<and> get_questions_id mockDatabase ''1abc'' = Response 200 (QuestionBody (hd mockQuestions))
   \<and> get_questions_id mockDatabase ''12abc'' = Response 404 (ErrorBody ''Question not found'')
   \<and> delete_questions_id mockDatabase ''12abc'' =
        (Response 404 (ErrorBody ''Question not found''), mockDatabase)"
  by code_simp

text \<open>
  C9, amended: a request to \<^verbatim>\<open>GET\<close>, \<^verbatim>\<open>PATCH\<close> or \<^verbatim>\<open>DELETE /questions/:id\<close> is
  answered with 400 and \<open>Invalid ID\<close>, whatever the store holds and with the store left
  as it is, when \<^verbatim>\<open>parseInt(id, 10)\<close> is \<^verbatim>\<open>NaN\<close>, that is, when the id, after
  leading whitespace and one sign, does not start with a decimal digit. Every numeric
  string passes this guard, and an id that passes it is never answered 400 by \<^verbatim>\<open>GET\<close>
  or \<^verbatim>\<open>DELETE\<close>. The not-found answer 404 is reached only for an id that
  \<^verbatim>\<open>parseInt\<close> reads as an integer of the store's \<^verbatim>\<open>Int\<close> range with no matching
  question.
\<close>

theorem questions_id_invalid:
  "(parseInt10 p = NaN \<longleftrightarrow>
      (case after_sign (dropWhile is_space p) of [] \<Rightarrow> True | c # r \<Rightarrow> \<not> is_digit c)) \<and>
   (parseInt10 p = NaN \<longrightarrow>
      get_questions_id db p = Response 400 (ErrorBody ''Invalid ID'')
      \<and> patch_questions_id xss db p b = (Response 400 (ErrorBody ''Invalid ID''), db)
      \<and> delete_questions_id db p = (Response 400 (ErrorBody ''Invalid ID''), db)) \<and>
   (numeric p \<longrightarrow> parseInt10 p \<noteq> NaN) \<and>
   (parseInt10 p \<noteq> NaN \<longrightarrow>
      status (get_questions_id db p) \<noteq> 400
      \<and> status (fst (delete_questions_id db p)) \<noteq> 400) \<and>
   (status (get_questions_id db p) = 404
      \<or> status (fst (patch_questions_id xss db p b)) = 404
      \<or> status (fst (delete_questions_id db p)) = 404 \<longrightarrow>
      (\<exists>i. parseInt10 p = Integer i \<and> - 2147483648 \<le> i \<and> i < 2147483648
         \<and> getQuestionById db i = None))"
proof (intro conjI impI)
  show "parseInt10 p = NaN \<longleftrightarrow>
      (case after_sign (dropWhile is_space p) of [] \<Rightarrow> True | c # r \<Rightarrow> \<not> is_digit c)"
    by (rule parseInt10_NaN)
next
  assume "parseInt10 p = NaN"
  then show "get_questions_id db p = Response 400 (ErrorBody ''Invalid ID'')"
    and "patch_questions_id xss db p b = (Response 400 (ErrorBody ''Invalid ID''), db)"
    and "delete_questions_id db p = (Response 400 (ErrorBody ''Invalid ID''), db)"
    by (simp_all add: get_questions_id_def patch_questions_id_def delete_questions_id_def
        isNaN_def)
next
  assume "numeric p"
  then show "parseInt10 p \<noteq> NaN"
    by (rule numeric_passes)
next
  assume "parseInt10 p \<noteq> NaN"
  then show "status (get_questions_id db p) \<noteq> 400"
    and "status (fst (delete_questions_id db p)) \<noteq> 400"
    by (auto simp: get_questions_id_def delete_questions_id_def isNaN_def Let_def
        split: option.splits sum.splits prod.splits)
next
  assume "status (get_questions_id db p) = 404
      \<or> status (fst (patch_questions_id xss db p b)) = 404
      \<or> status (fst (delete_questions_id db p)) = 404"
  then show "\<exists>i. parseInt10 p = Integer i \<and> - 2147483648 \<le> i \<and> i < 2147483648
         \<and> getQuestionById db i = None"
    using get_questions_id_404 patch_questions_id_404 delete_questions_id_404 by blast
qed

theorem questions_id_invalid_witness:
  "parseInt10 ''abc'' = NaN
   \<and> get_questions_id mockDatabase ''abc'' = Response 400 (ErrorBody ''Invalid ID'')
   \<and> patch_questions_id escapeHtml mockDatabase ''abc'' (Some (JObject []))
        = (Response 400 (ErrorBody ''Invalid ID''), mockDatabase)
   \<and> delete_questions_id mockDatabase ''abc'' = (Response 400 (ErrorBody ''Invalid ID''), mockDatabase)
   \<and> numeric ''999'' \<and> parseInt10 ''999'' = Integer 999
   \<and> status (get_questions_id mockDatabase ''999'') = 404
   \<and> status (fst (delete_questions_id mockDatabase ''999'')) \<noteq> 400
   \<and> getQuestionById mockDatabase 999 = None"
proof -
  have n: "case after_sign (dropWhile is_space ''abc'') of [] \<Rightarrow> True | c # r \<Rightarrow> \<not> is_digit c"
    by code_simp
  have m: "numeric ''999''" by code_simp
  have v: "parseInt10 ''999'' = Integer 999" by code_simp
  have s: "status (get_questions_id mockDatabase ''999'') = 404" by code_simp
  note T1 = questions_id_invalid [of "''abc''" mockDatabase escapeHtml "Some (JObject [])"]
  note T2 = questions_id_invalid [of "''999''" mockDatabase escapeHtml "Some (JObject [])"]
  from T1 n have nan: "parseInt10 ''abc'' = NaN" by blast
  with T1 have a: "get_questions_id mockDatabase ''abc'' = Response 400 (ErrorBody ''Invalid ID'')"
    "patch_questions_id escapeHtml mockDatabase ''abc'' (Some (JObject []))
        = (Response 400 (ErrorBody ''Invalid ID''), mockDatabase)"
    "delete_questions_id mockDatabase ''abc'' = (Response 400 (ErrorBody ''Invalid ID''), mockDatabase)"
    by blast+
  from T2 m have "parseInt10 ''999'' \<noteq> NaN" by blast
  with T2 have d: "status (fst (delete_questions_id mockDatabase ''999'')) \<noteq> 400" by blast
  from T2 s have "\<exists>i. parseInt10 ''999'' = Integer i \<and> getQuestionById mockDatabase i = None"
    by blast
  with v have g: "getQuestionById mockDatabase 999 = None" by simp
  from nan a m v s d g show ?thesis by blast
qed

end
